theory Spec2Isabelle
  imports Main "HOL-Library.Sublist"
begin

section \<open>JavaScript strings\<close>


definition startsWith :: "string \<Rightarrow> string \<Rightarrow> bool" where
  "startsWith s p = prefix p s"



text \<open>
  \<open>s.split(sep)\<close> for a one-character separator: the empty string gives one empty piece,
  and \<open>n\<close> separators give \<open>n + 1\<close> pieces.
\<close>

fun split :: "string \<Rightarrow> char \<Rightarrow> string list" where
  "split [] sep = [[]]"
| "split (c # cs) sep =
     (if c = sep then [] # split cs sep
      else (case split cs sep of
              [] \<Rightarrow> [[c]]
            | piece # pieces \<Rightarrow> (c # piece) # pieces))"

text \<open>\<open>pieces.join(sep)\<close>.\<close>

fun join :: "string list \<Rightarrow> string \<Rightarrow> string" where
  "join [] sep = []"
| "join [piece] sep = piece"
| "join (piece # next_piece # pieces) sep = piece @ sep @ join (next_piece # pieces) sep"




text \<open>
  \<open>s.toLowerCase()\<close>: below \<open>0x100\<close> the letters with a lower-case form are \<open>A-Z\<close> and
  \<open>0xC0-0xDE\<close> without \<open>0xD7\<close>; the lower-case form is \<open>0x20\<close> higher.
\<close>

definition toLowerChar :: "char \<Rightarrow> char" where
  "toLowerChar c =
     (let n = (of_char c :: nat)
      in if (65 \<le> n \<and> n \<le> 90) \<or> (192 \<le> n \<and> n \<le> 222 \<and> n \<noteq> 215)
         then char_of (n + 32) else c)"

definition toLowerCase :: "string \<Rightarrow> string" where
  "toLowerCase s = map toLowerChar s"

text \<open>\<open>s.includes(sub)\<close>: whether \<open>sub\<close> occurs in \<open>s\<close>.\<close>

fun includes_str :: "string \<Rightarrow> string \<Rightarrow> bool" where
  "includes_str [] sub = (sub = [])"
| "includes_str (c # cs) sub = (prefix sub (c # cs) \<or> includes_str cs sub)"


section \<open>The manifest rewriter\<close>

text \<open>
  \<open>rewriteHlsManifest\<close> is the same text in all three revisions of the program
  (\<open>src/server.js\<close> lines 21-37, \<open>src/unnamed/part_000\<close> lines 22-38 and 227-248).

  It calls \<open>url.resolve\<close> of Node's \<open>url\<close> module, which is library code and not part of
  the repository. The library function is a parameter \<open>resolve\<close> of the model:
  \<open>resolve base ref = Some r\<close> when the call returns \<open>r\<close>, and \<open>None\<close> when it throws
  (the \<open>catch\<close> branch of the source).
\<close>

type_synonym url_resolver = "string \<Rightarrow> string \<Rightarrow> string option"





section \<open>Node's \<open>url.resolve\<close> on plain URLs\<close>

text \<open>
  The theorems about the repository's functions hold for every \<^typ>\<open>url_resolver\<close>. To
  evaluate them on concrete manifests, \<open>url_resolve\<close> below follows Node's legacy \<open>url\<close>
  module (\<open>lib/url.js\<close>: \<open>urlParse\<close> called with \<open>slashesDenoteHost\<close>,
  \<open>Url.prototype.resolveObject\<close> and \<open>Url.prototype.format\<close>) on plain URLs: URLs of
  letters, digits and \<open>- . _ ~ / ? # : , = & + %\<close>, without user name, password or
  backslash, whose protocol, if any, is one of Node's slashed protocols. The steps of the
  library that only act outside these URLs (escaping, user names, host name validation,
  protocols without slashes such as \<open>mailto:\<close>) are left out, so outside the plain URLs
  \<open>url_resolve\<close> is not a model of the library.
\<close>

record legacy_url =
  lu_protocol :: "string option"
  lu_slashes :: bool
  lu_host :: "string option"
  lu_pathname :: "string option"
  lu_search :: "string option"
  lu_hash :: "string option"

text \<open>A field that is \<open>null\<close> or the empty string is falsy.\<close>

definition nonEmpty :: "string option \<Rightarrow> bool" where
  "nonEmpty field = (case field of None \<Rightarrow> False | Some s \<Rightarrow> s \<noteq> [])"

definition orEmpty :: "string option \<Rightarrow> string" where
  "orEmpty field = (case field of None \<Rightarrow> [] | Some s \<Rightarrow> s)"

definition slashedProtocol :: "string \<Rightarrow> bool" where
  "slashedProtocol p =
     (p \<in> {''http'', ''http:'', ''https'', ''https:'', ''ftp'', ''ftp:'', ''gopher'', ''gopher:'',
            ''file'', ''file:'', ''ws'', ''ws:'', ''wss'', ''wss:''})"

definition hostlessProtocol :: "string \<Rightarrow> bool" where
  "hostlessProtocol p = (p \<in> {''javascript'', ''javascript:''})"

text \<open>The regular expression \<open>/^[a-z0-9.+-]+:/i\<close>: the match, if any.\<close>

definition isProtocolChar :: "char \<Rightarrow> bool" where
  "isProtocolChar c =
     (let n = (of_char c :: nat)
      in (97 \<le> n \<and> n \<le> 122) \<or> (65 \<le> n \<and> n \<le> 90) \<or> (48 \<le> n \<and> n \<le> 57)
         \<or> c = CHR ''.'' \<or> c = CHR ''+'' \<or> c = CHR ''-'')"

definition protocolPattern :: "string \<Rightarrow> string option" where
  "protocolPattern rest =
     (let run = takeWhile isProtocolChar rest
      in if run \<noteq> [] \<and> prefix '':'' (drop (length run) rest) then Some (run @ '':'')
         else None)"

text \<open>White space as \<open>urlParse\<close> trims it: codes below 33 and NBSP.\<close>

definition isUrlWs :: "char \<Rightarrow> bool" where
  "isUrlWs c = ((of_char c :: nat) < 33 \<or> c = CHR 0xA0)"

definition urlParse :: "string \<Rightarrow> legacy_url" where
  "urlParse url =
     (let rest0 = rev (dropWhile isUrlWs (rev (dropWhile isUrlWs url)));
          proto = protocolPattern rest0;
          lowerProto = map_option toLowerCase proto;
          rest1 = drop (length (orEmpty proto)) rest0;
          slashes = prefix ''//'' rest1;
          hostless = (case lowerProto of None \<Rightarrow> False | Some p \<Rightarrow> hostlessProtocol p);
          takeSlashes = (slashes \<and> \<not> hostless);
          rest2 = (if takeSlashes then drop 2 rest1 else rest1);
          hasHost = (\<not> hostless \<and>
                     (slashes \<or> (case proto of None \<Rightarrow> False | Some p \<Rightarrow> \<not> slashedProtocol p)));
          hostPart = takeWhile (\<lambda>c. c \<noteq> CHR ''/'' \<and> c \<noteq> CHR ''?'' \<and> c \<noteq> CHR ''#'') rest2;
          host = (if hasHost then Some (toLowerCase hostPart) else None);
          rest3 = (if hasHost then drop (length hostPart) rest2 else rest2);
          beforeHash = takeWhile (\<lambda>c. c \<noteq> CHR ''#'') rest3;
          hash = (if CHR ''#'' \<in> set rest3 then Some (drop (length beforeHash) rest3) else None);
          beforeSearch = takeWhile (\<lambda>c. c \<noteq> CHR ''?'') beforeHash;
          search = (if CHR ''?'' \<in> set beforeHash
                    then Some (drop (length beforeSearch) beforeHash) else None);
          pathname = (if beforeSearch \<noteq> [] then Some beforeSearch
                      else if (case lowerProto of None \<Rightarrow> False | Some p \<Rightarrow> slashedProtocol p)
                              \<and> nonEmpty host
                      then Some ''/'' else None)
      in \<lparr> lu_protocol = lowerProto, lu_slashes = takeSlashes, lu_host = host,
           lu_pathname = pathname, lu_search = search, lu_hash = hash \<rparr>)"

text \<open>\<open>Url.prototype.format\<close>.\<close>

definition escapePathname :: "string \<Rightarrow> string" where
  "escapePathname p =
     concat (map (\<lambda>c. if c = CHR ''#'' then ''%23'' else if c = CHR ''?'' then ''%3F'' else [c]) p)"

definition escapeSearch :: "string \<Rightarrow> string" where
  "escapeSearch q = concat (map (\<lambda>c. if c = CHR ''#'' then ''%23'' else [c]) q)"

definition urlFormat :: "legacy_url \<Rightarrow> string" where
  "urlFormat u =
     (let protocol = orEmpty (lu_protocol u);
          pathname = escapePathname (orEmpty (lu_pathname u));
          host = orEmpty (lu_host u);
          withSlashes = ((lu_slashes u \<or> slashedProtocol protocol) \<and> (lu_slashes u \<or> host \<noteq> []));
          fileSlashes = ((lu_slashes u \<or> slashedProtocol protocol) \<and> \<not> withSlashes
                         \<and> prefix ''file'' protocol);
          pathname' = (if withSlashes \<and> pathname \<noteq> [] \<and> \<not> prefix ''/'' pathname
                       then ''/'' @ pathname else pathname);
          host' = (if withSlashes then ''//'' @ host else if fileSlashes then ''//'' else host);
          search = escapeSearch (orEmpty (lu_search u));
          search' = (if search \<noteq> [] \<and> \<not> prefix ''?'' search then ''?'' @ search else search);
          hash = orEmpty (lu_hash u);
          hash' = (if hash \<noteq> [] \<and> \<not> prefix ''#'' hash then ''#'' @ hash else hash)
      in protocol @ host' @ pathname' @ search' @ hash')"

text \<open>
  The loop of \<open>resolveObject\<close> that removes \<open>.\<close> and \<open>..\<close>, walking the segments from the
  last to the first; the number returned is \<open>up\<close>, the \<open>..\<close> left over.
\<close>

fun stripDots :: "string list \<Rightarrow> string list \<times> nat" where
  "stripDots [] = ([], 0)"
| "stripDots (seg # segs) =
     (case stripDots segs of (kept, up) \<Rightarrow>
        if seg = ''.'' then (kept, up)
        else if seg = ''..'' then (kept, Suc up)
        else if 0 < up then (kept, up - 1)
        else (seg # kept, up))"

definition pathSegments :: "string option \<Rightarrow> string list" where
  "pathSegments pathname = (if nonEmpty pathname then split (orEmpty pathname) (CHR ''/'') else [])"

text \<open>The last part of \<open>resolveObject\<close>: source and reference have the same protocol, or
  the reference has none.\<close>

definition mergePaths :: "legacy_url \<Rightarrow> legacy_url \<Rightarrow> legacy_url" where
  "mergePaths result relative =
     (let isSourceAbs = prefix ''/'' (orEmpty (lu_pathname result));
          isRelAbs = (nonEmpty (lu_host relative) \<or> prefix ''/'' (orEmpty (lu_pathname relative)));
          mustEndAbs = (isRelAbs \<or> isSourceAbs
                        \<or> (nonEmpty (lu_host result) \<and> nonEmpty (lu_pathname relative)));
          srcPath0 = pathSegments (lu_pathname result);
          relPath = pathSegments (lu_pathname relative);
          slashes = (lu_slashes result \<or> lu_slashes relative)
      in if \<not> isRelAbs \<and> relPath = [] \<and> lu_search relative \<noteq> None
         then result\<lparr>lu_search := lu_search relative\<rparr>
         else
           (let result1 =
                  (if isRelAbs
                   then result\<lparr>lu_host := (if lu_host relative \<noteq> None then lu_host relative
                                             else lu_host result),
                                lu_search := lu_search relative\<rparr>
                   else if relPath \<noteq> [] then result\<lparr>lu_search := lu_search relative\<rparr>
                   else result);
                srcPath1 = (if isRelAbs then relPath
                            else if relPath \<noteq> [] then butlast srcPath0 @ relPath
                            else srcPath0)
            in if srcPath1 = [] then result1\<lparr>lu_pathname := None\<rparr>
               else
                 (let lastSeg = last srcPath1;
                      hasTrailingSlash =
                        (((nonEmpty (lu_host result1) \<or> nonEmpty (lu_host relative)
                             \<or> 1 < length srcPath1)
                          \<and> (lastSeg = ''.'' \<or> lastSeg = ''..'')) \<or> lastSeg = []);
                      srcPath2 = (case stripDots srcPath1 of (kept, up) \<Rightarrow>
                                    if \<not> mustEndAbs then replicate up ''..'' @ kept else kept);
                      srcPath3 = (if mustEndAbs \<and> (srcPath2 = [] \<or> hd srcPath2 \<noteq> [])
                                  then [] # srcPath2 else srcPath2);
                      joined = join srcPath3 ''/'';
                      srcPath4 = (if hasTrailingSlash \<and> (joined = [] \<or> last joined \<noteq> CHR ''/'')
                                  then srcPath3 @ [[]] else srcPath3);
                      isAbsolute = (srcPath4 \<noteq> [] \<and> hd srcPath4 = []);
                      mustEndAbs' = (mustEndAbs \<or> (nonEmpty (lu_host result1) \<and> srcPath4 \<noteq> []));
                      srcPath5 = (if mustEndAbs' \<and> \<not> isAbsolute then [] # srcPath4 else srcPath4)
                  in result1\<lparr>lu_pathname := (if srcPath5 = [] then None
                                               else Some (join srcPath5 ''/'')),
                              lu_slashes := slashes\<rparr>)))"

text \<open>
  The branch of \<open>resolveObject\<close> for a reference with another, slashed protocol and no
  host: the first non-empty segment of its path becomes the host.
\<close>

definition hostFromPath :: "legacy_url \<Rightarrow> string option \<times> string option" where
  "hostFromPath relative =
     (if \<not> nonEmpty (lu_host relative)
         \<and> lu_protocol relative \<noteq> Some ''file:'' \<and> lu_protocol relative \<noteq> Some ''file''
         \<and> \<not> hostlessProtocol (orEmpty (lu_protocol relative))
      then
        (let segs = dropWhile (\<lambda>seg. seg = []) (split (orEmpty (lu_pathname relative)) (CHR ''/''));
             relPath0 = tl segs;
             relPath1 = (if relPath0 = [] \<or> hd relPath0 \<noteq> [] then [] # relPath0 else relPath0);
             relPath2 = (if length relPath1 < 2 then [] # relPath1 else relPath1)
         in (Some (if segs = [] then [] else hd segs), Some (join relPath2 ''/'')))
      else (Some (orEmpty (lu_host relative)), lu_pathname relative))"

definition resolveObject :: "legacy_url \<Rightarrow> legacy_url \<Rightarrow> legacy_url" where
  "resolveObject source relative =
     (let result = source\<lparr>lu_hash := lu_hash relative\<rparr>
      in if urlFormat relative = [] then result
         else if lu_slashes relative \<and> lu_protocol relative = None then
           (let taken = relative\<lparr>lu_protocol := lu_protocol result\<rparr>
            in if slashedProtocol (orEmpty (lu_protocol taken)) \<and> nonEmpty (lu_host taken)
                  \<and> \<not> nonEmpty (lu_pathname taken)
               then taken\<lparr>lu_pathname := Some ''/''\<rparr> else taken)
         else if lu_protocol relative \<noteq> None \<and> lu_protocol relative \<noteq> lu_protocol result then
           (if \<not> slashedProtocol (orEmpty (lu_protocol relative)) then relative
            else (case hostFromPath relative of (host, pathname) \<Rightarrow>
                    result\<lparr>lu_protocol := lu_protocol relative, lu_pathname := pathname,
                           lu_search := lu_search relative, lu_host := host,
                           lu_slashes := (lu_slashes result \<or> lu_slashes relative)\<rparr>))
         else mergePaths result relative)"

text \<open>\<open>url.resolve(from, to)\<close>. On plain URLs the library does not throw.\<close>

definition url_resolve :: url_resolver where
  "url_resolve source relative =
     Some (urlFormat (resolveObject (urlParse source) (urlParse relative)))"


section \<open>The provider resolver\<close>

text \<open>
  The program exists in three revisions: \<open>src/server.js\<close>, the first document of
  \<open>src/unnamed/part_000\<close> (lines 1-198, the revision with \<open>replaceDomain\<close>) and the
  second document of that file (lines 199-367, the oldest one). Their
  \<open>getHlsUrlFromInvidious\<close> differ in two places only, which the model selects by the
  revision.
\<close>

datatype revision = Server_js | Part_000 | Part_000_older

definition INVIDIOUS_INSTANCES :: "string list" where
  "INVIDIOUS_INSTANCES =
     [''https://invidious.f5.si'', ''https://yt.omada.cafe'', ''https://inv.perditum.com'',
      ''https://iv.melmac.space'', ''https://invidious.nikkosphere.com'', ''https://iv.duti.dev'',
      ''https://youtube.alt.tyil.nl'', ''https://inv.antopie.org'', ''https://lekker.gay'',
      ''https://invidious.ducks.party'', ''https://super8.absturztau.be'', ''https://inv.vern.cc'',
      ''https://yt.thechangebook.org'', ''https://invidious.materialio.us'',
      ''https://invid-api.poketube.fun'']"

definition HLS_FORMAT_NAME :: string where
  "HLS_FORMAT_NAME = ''hls''"

text \<open>
  A parsed response body is a JSON value. An object lists its properties, each key once.
  The program only ever tests a number for being zero, so an integer stands for the
  number: every number other than zero behaves like \<open>JNum 1\<close>.
\<close>

datatype json =
    JNull
  | JBool bool
  | JNum int
  | JStr string
  | JArr "json list"
  | JObj "(string \<times> json) list"

text \<open>
  What the \<open>try\<close> block can throw: the rejections of \<open>fetch\<close> and of \<open>response.json()\<close>,
  the \<open>Error\<close> thrown for a status that is not \<open>ok\<close>, the \<open>TypeError\<close> of reading a
  property of \<open>null\<close> or calling what is not a function, and an exception of \<open>url.resolve\<close>.
\<close>

datatype js_error = AbortError | FetchError | HttpError nat | SyntaxError | TypeError | UrlError

text \<open>
  A value or \<open>undefined\<close> is a \<^typ>\<open>json option\<close>. \<open>truthy\<close> is JavaScript's conversion to
  a boolean.
\<close>

fun truthy :: "json option \<Rightarrow> bool" where
  "truthy None = False"
| "truthy (Some JNull) = False"
| "truthy (Some (JBool b)) = b"
| "truthy (Some (JNum n)) = (n \<noteq> 0)"
| "truthy (Some (JStr s)) = (s \<noteq> [])"
| "truthy (Some (JArr elems)) = True"
| "truthy (Some (JObj props)) = True"

text \<open>
  Reading the property \<open>key\<close> of a value, for the keys the program reads (\<open>formatStreams\<close>,
  \<open>adaptiveFormats\<close>, \<open>hlsUrl\<close>, \<open>container\<close>, \<open>qualityLabel\<close>, \<open>url\<close>), none of which a
  built-in prototype defines: \<open>null\<close> throws, an object gives its property or
  \<open>undefined\<close>, every other value gives \<open>undefined\<close>.
\<close>

fun getProp :: "json \<Rightarrow> string \<Rightarrow> js_error + json option" where
  "getProp JNull key = Inl TypeError"
| "getProp (JObj props) key = Inr (map_of props key)"
| "getProp (JBool b) key = Inr None"
| "getProp (JNum n) key = Inr None"
| "getProp (JStr s) key = Inr None"
| "getProp (JArr elems) key = Inr None"

text \<open>
  The callback of \<open>formats.find\<close>:
  \<open>f.container === HLS_FORMAT_NAME || (f.qualityLabel && f.qualityLabel.toLowerCase().includes(HLS_FORMAT_NAME))\<close>.
  A truthy \<open>qualityLabel\<close> that is not a string has no \<open>toLowerCase\<close> to call.
\<close>

definition isHlsFormat :: "json \<Rightarrow> js_error + bool" where
  "isHlsFormat f =
     (case getProp f ''container'' of
        Inl e \<Rightarrow> Inl e
      | Inr container \<Rightarrow>
          if container = Some (JStr HLS_FORMAT_NAME) then Inr True
          else (case getProp f ''qualityLabel'' of
                  Inl e \<Rightarrow> Inl e
                | Inr qualityLabel \<Rightarrow>
                    if \<not> truthy qualityLabel then Inr False
                    else (case qualityLabel of
                            Some (JStr label) \<Rightarrow>
                              Inr (includes_str (toLowerCase label) HLS_FORMAT_NAME)
                          | _ \<Rightarrow> Inl TypeError)))"

text \<open>\<open>Array.prototype.find\<close> with that callback: the first element it accepts.\<close>

fun findFormat :: "json list \<Rightarrow> js_error + json option" where
  "findFormat [] = Inr None"
| "findFormat (f # fs) =
     (case isHlsFormat f of
        Inl e \<Rightarrow> Inl e
      | Inr True \<Rightarrow> Inr (Some f)
      | Inr False \<Rightarrow> findFormat fs)"

text \<open>\<open>const formats = videoInfo.formatStreams || videoInfo.adaptiveFormats || []\<close>.\<close>

definition formatsOf :: "json \<Rightarrow> js_error + json option" where
  "formatsOf videoInfo =
     (case getProp videoInfo ''formatStreams'' of
        Inl e \<Rightarrow> Inl e
      | Inr formatStreams \<Rightarrow>
          if truthy formatStreams then Inr formatStreams
          else (case getProp videoInfo ''adaptiveFormats'' of
                  Inl e \<Rightarrow> Inl e
                | Inr adaptiveFormats \<Rightarrow>
                    if truthy adaptiveFormats then Inr adaptiveFormats
                    else Inr (Some (JArr []))))"

text \<open>\<open>const hlsFormat = formats.find(...)\<close>: a value that is not an array has no \<open>find\<close>.\<close>

definition hlsFormatOf :: "json \<Rightarrow> js_error + json option" where
  "hlsFormatOf videoInfo =
     (case formatsOf videoInfo of
        Inl e \<Rightarrow> Inl e
      | Inr (Some (JArr fs)) \<Rightarrow> findFormat fs
      | Inr other \<Rightarrow> Inl TypeError)"

text \<open>
  \<open>hlsUrl = hlsFormat ? hlsFormat.url : videoInfo.hlsUrl\<close>; the oldest revision has
  \<open>null\<close> in place of \<open>videoInfo.hlsUrl\<close>.
\<close>

definition hlsUrlOf :: "revision \<Rightarrow> json \<Rightarrow> js_error + json option" where
  "hlsUrlOf rv videoInfo =
     (case hlsFormatOf videoInfo of
        Inl e \<Rightarrow> Inl e
      | Inr hlsFormat \<Rightarrow>
          if truthy hlsFormat then
            (case hlsFormat of Some f \<Rightarrow> getProp f ''url'' | None \<Rightarrow> Inr None)
          else if rv = Part_000_older then Inr (Some JNull)
          else getProp videoInfo ''hlsUrl'')"

text \<open>
  The outcome of \<open>await fetch(apiUrl, ...)\<close> followed by \<open>await response.json()\<close>: the
  request is rejected (a network failure, or \<open>AbortError\<close> when the timer of
  \<open>API_TIMEOUT_MS\<close> aborts it), or a response with a status arrives, whose body either
  cannot be read as JSON or parses to a value. Both awaits are taken to settle; the
  request headers, which differ between the revisions, are not part of the model.
\<close>

datatype body = BodyError js_error | BodyJson json

datatype fetch_result = Rejected js_error | Responded nat body

text \<open>
  The \<open>try\<close> block of one loop iteration, after the request: \<open>Inl e\<close> when it throws \<open>e\<close>,
  \<open>Inr (Some url)\<close> when it returns \<open>url\<close>, \<open>Inr None\<close> when it ends without a URL.
  Only the revision with \<open>replaceDomain\<close> makes the URL absolute.
\<close>

definition tryBlock :: "revision \<Rightarrow> url_resolver \<Rightarrow> string \<Rightarrow> fetch_result \<Rightarrow> js_error + json option"
  where
  "tryBlock rv resolve instance fetched =
     (case fetched of
        Rejected e \<Rightarrow> Inl e
      | Responded status content \<Rightarrow>
          if \<not> (200 \<le> status \<and> status < 300) then Inl (HttpError status)
          else (case content of
                  BodyError e \<Rightarrow> Inl e
                | BodyJson videoInfo \<Rightarrow>
                    (case hlsUrlOf rv videoInfo of
                       Inl e \<Rightarrow> Inl e
                     | Inr hlsUrl \<Rightarrow>
                         if truthy hlsUrl then
                           (if rv = Part_000 then
                              (case hlsUrl of
                                 Some (JStr s) \<Rightarrow>
                                   if \<not> startsWith s ''http'' then
                                     (case resolve instance s of
                                        Some resolved \<Rightarrow> Inr (Some (JStr resolved))
                                      | None \<Rightarrow> Inl UrlError)
                                   else Inr (Some (JStr s))
                               | _ \<Rightarrow> Inl TypeError)
                            else Inr hlsUrl)
                         else Inr None)))"

text \<open>
  What one run does that can be observed: the lines it logs and the requests it sends.
  The network is a state \<open>'w\<close> that \<open>fetch\<close> reads and changes, so the same address may
  answer differently each time.
\<close>

datatype event =
    Log_trying string
  | Request string
  | Log_success string
  | Log_no_url string
  | Log_timeout string
  | Log_failure string js_error

type_synonym 'w fetcher = "'w \<Rightarrow> string \<Rightarrow> fetch_result \<times> 'w"

text \<open>
  The address requested from an instance: the template literal that puts
  \<open>/api/v1/videos/\<close> between \<open>instance\<close> and \<open>videoId\<close>.
\<close>

definition apiUrlOf :: "string \<Rightarrow> string \<Rightarrow> string" where
  "apiUrlOf instance videoId = instance @ ''/api/v1/videos/'' @ videoId"

text \<open>The \<open>for\<close> loop over the instances, and \<open>return null\<close> after it.\<close>

fun tryInstances ::
  "revision \<Rightarrow> url_resolver \<Rightarrow> 'w fetcher \<Rightarrow> string list \<Rightarrow> string \<Rightarrow> 'w
     \<Rightarrow> json option \<times> event list \<times> 'w"
  where
  "tryInstances rv resolve fetch [] videoId w = (None, [], w)"
| "tryInstances rv resolve fetch (instance # instances) videoId w =
     (let apiUrl = apiUrlOf instance videoId
      in case fetch w apiUrl of (fetched, w') \<Rightarrow>
           (case tryBlock rv resolve instance fetched of
              Inr (Some hlsUrl) \<Rightarrow>
                (Some hlsUrl, [Log_trying instance, Request apiUrl, Log_success instance], w')
            | Inr None \<Rightarrow>
                (case tryInstances rv resolve fetch instances videoId w' of
                   (result, events, w'') \<Rightarrow>
                     (result,
                      [Log_trying instance, Request apiUrl, Log_no_url instance] @ events,
                      w''))
            | Inl e \<Rightarrow>
                (case tryInstances rv resolve fetch instances videoId w' of
                   (result, events, w'') \<Rightarrow>
                     (result,
                      [Log_trying instance, Request apiUrl,
                       if e = AbortError then Log_timeout instance else Log_failure instance e]
                      @ events,
                      w''))))"

definition getHlsUrlFromInvidious ::
  "revision \<Rightarrow> url_resolver \<Rightarrow> 'w fetcher \<Rightarrow> string \<Rightarrow> 'w \<Rightarrow> json option \<times> event list \<times> 'w"
  where
  "getHlsUrlFromInvidious rv resolve fetch videoId w =
     tryInstances rv resolve fetch INVIDIOUS_INSTANCES videoId w"


section \<open>The address rewriter\<close>


































section \<open>Notions used in the statements\<close>

subsection \<open>Manifests\<close>




subsection \<open>Runs of the resolver\<close>

text \<open>The addresses requested in a run, in order.\<close>

fun requests :: "event list \<Rightarrow> string list" where
  "requests [] = []"
| "requests (Request url # events) = url # requests events"
| "requests (other # events) = requests events"

text \<open>The state of the network after the listed instances have been queried in order.\<close>

fun worldAfter :: "'w fetcher \<Rightarrow> string list \<Rightarrow> string \<Rightarrow> 'w \<Rightarrow> 'w" where
  "worldAfter fetch [] videoId w = w"
| "worldAfter fetch (instance # instances) videoId w =
     worldAfter fetch instances videoId (snd (fetch w (apiUrlOf instance videoId)))"

text \<open>
  What the network answers to the query of the instance at index \<open>j\<close>, once the instances
  before it have been queried; and what the \<open>try\<close> block makes of that answer.
\<close>

definition fetchedAt :: "'w fetcher \<Rightarrow> string list \<Rightarrow> string \<Rightarrow> 'w \<Rightarrow> nat \<Rightarrow> fetch_result" where
  "fetchedAt fetch instances videoId w j =
     fst (fetch (worldAfter fetch (take j instances) videoId w) (apiUrlOf (instances ! j) videoId))"

definition yieldAt ::
  "revision \<Rightarrow> url_resolver \<Rightarrow> 'w fetcher \<Rightarrow> string list \<Rightarrow> string \<Rightarrow> 'w \<Rightarrow> nat
     \<Rightarrow> js_error + json option"
  where
  "yieldAt rv resolve fetch instances videoId w j =
     tryBlock rv resolve (instances ! j) (fetchedAt fetch instances videoId w j)"

text \<open>A query yields a usable stream URL when the \<open>try\<close> block returns one.\<close>

definition usable :: "js_error + json option \<Rightarrow> bool" where
  "usable outcome = (case outcome of Inr (Some url) \<Rightarrow> True | _ \<Rightarrow> False)"




subsection \<open>Provider responses\<close>

text \<open>
  A format descriptor in the specification's words: its container tag equals \<open>hls\<close>, or
  its quality label, in lower case, contains \<open>hls\<close>.
\<close>

definition matchesHls :: "json \<Rightarrow> bool" where
  "matchesHls f =
     (getProp f ''container'' = Inr (Some (JStr ''hls''))
      \<or> (case getProp f ''qualityLabel'' of
            Inr (Some (JStr label)) \<Rightarrow> includes_str (toLowerCase label) ''hls''
          | _ \<Rightarrow> False))"

subsection \<open>Addresses\<close>




section \<open>Concrete inputs\<close>




text \<open>
  Three providers of which the first two time out and the third answers with a stream
  descriptor; the state of this network counts the requests made.
\<close>

definition example_instances :: "string list" where
  "example_instances = [''https://one.example'', ''https://two.example'', ''https://three.example'']"

definition example_info :: json where
  "example_info =
     JObj [(''formatStreams'',
            JArr [JObj [(''container'', JStr ''mp4''), (''url'', JStr ''https://cdn.example/v.mp4'')],
                  JObj [(''qualityLabel'', JStr ''HLS 720p''),
                        (''url'', JStr ''https://cdn.example/live.m3u8'')]])]"

definition example_fetch :: "nat fetcher" where
  "example_fetch n url =
     (if url = ''https://three.example/api/v1/videos/abc''
      then Responded 200 (BodyJson example_info) else Rejected AbortError,
      Suc n)"




text \<open>
  A response with no stream descriptor but a top-level \<open>hlsUrl\<close>; a response whose
  \<open>formatStreams\<close> is an empty array while \<open>adaptiveFormats\<close> holds a stream descriptor; and
  a network whose every answer carries the given \<open>hlsUrl\<close> and nothing else.
\<close>

definition fallback_info :: json where
  "fallback_info =
     JObj [(''formatStreams'',
            JArr [JObj [(''container'', JStr ''mp4''), (''url'', JStr ''https://cdn.example/v.mp4'')]]),
           (''hlsUrl'', JStr ''https://cdn.example/master.m3u8'')]"

definition shadowed_info :: json where
  "shadowed_info =
     JObj [(''formatStreams'', JArr []),
           (''adaptiveFormats'',
            JArr [JObj [(''container'', JStr ''hls''), (''url'', JStr ''https://cdn.example/live.m3u8'')]])]"

definition relative_fetch :: "string \<Rightarrow> unit fetcher" where
  "relative_fetch hlsUrl w url = (Responded 200 (BodyJson (JObj [(''hlsUrl'', JStr hlsUrl)])), w)"







section \<open>Splitting and joining lines\<close>

lemma split_not_Nil: "split s sep \<noteq> []"
  by (induction s) (auto split: list.splits)





lemma join_split: "join (split s sep) [sep] = s"
proof (induction s)
  case Nil
  show ?case by simp
next
  case (Cons c cs)
  obtain p ps where ps: "split cs sep = p # ps"
    using split_not_Nil [of cs sep] by (cases "split cs sep") auto
  show ?case
  proof (cases "c = sep")
    case True
    with Cons ps show ?thesis by simp
  next
    case False
    with Cons ps show ?thesis by (cases ps) auto
  qed
qed


section \<open>The manifest rewriter, line by line\<close>



























section \<open>The loop over the providers\<close>

lemma usable_iff: "usable outcome \<longleftrightarrow> (\<exists>url. outcome = Inr (Some url))"
  by (auto simp: usable_def split: sum.splits option.splits)

lemma fetchedAt_0:
  "fetchedAt fetch (instance # instances) videoId w 0 = fst (fetch w (apiUrlOf instance videoId))"
  by (simp add: fetchedAt_def)

lemma fetchedAt_Suc:
  "fetchedAt fetch (instance # instances) videoId w (Suc j)
   = fetchedAt fetch instances videoId (snd (fetch w (apiUrlOf instance videoId))) j"
  by (simp add: fetchedAt_def)

lemma yieldAt_0:
  "yieldAt rv resolve fetch (instance # instances) videoId w 0
   = tryBlock rv resolve instance (fst (fetch w (apiUrlOf instance videoId)))"
  by (simp add: yieldAt_def fetchedAt_0)

lemma yieldAt_Suc:
  "yieldAt rv resolve fetch (instance # instances) videoId w (Suc j)
   = yieldAt rv resolve fetch instances videoId (snd (fetch w (apiUrlOf instance videoId))) j"
  by (simp add: yieldAt_def fetchedAt_Suc)

lemma tryInstances_success:
  assumes "tryBlock rv resolve instance (fst (fetch w (apiUrlOf instance videoId))) = Inr (Some url)"
  shows "tryInstances rv resolve fetch (instance # instances) videoId w
         = (Some url,
            [Log_trying instance, Request (apiUrlOf instance videoId), Log_success instance],
            snd (fetch w (apiUrlOf instance videoId)))"
proof (cases "fetch w (apiUrlOf instance videoId)")
  case (Pair fetched w')
  with assms show ?thesis by (simp add: Let_def)
qed

lemma tryInstances_next:
  assumes "\<not> usable (tryBlock rv resolve instance (fst (fetch w (apiUrlOf instance videoId))))"
  shows "fst (tryInstances rv resolve fetch (instance # instances) videoId w)
           = fst (tryInstances rv resolve fetch instances videoId
                    (snd (fetch w (apiUrlOf instance videoId))))
       \<and> requests (fst (snd (tryInstances rv resolve fetch (instance # instances) videoId w)))
           = apiUrlOf instance videoId
             # requests (fst (snd (tryInstances rv resolve fetch instances videoId
                                     (snd (fetch w (apiUrlOf instance videoId))))))
       \<and> snd (snd (tryInstances rv resolve fetch (instance # instances) videoId w))
           = snd (snd (tryInstances rv resolve fetch instances videoId
                         (snd (fetch w (apiUrlOf instance videoId)))))"
proof (cases "fetch w (apiUrlOf instance videoId)")
  case (Pair fetched w')
  with assms show ?thesis
    by (auto simp: Let_def usable_def split: prod.splits sum.splits option.splits)
qed

lemma all_less_upt: "(\<forall>j<n. P j) \<longleftrightarrow> list_all P [0..<n]"
  by (auto simp: list_all_iff)

text \<open>
  Claim C1. If the provider at index \<open>k\<close> is the first whose query yields a usable stream
  URL, the resolver returns that URL, has requested exactly the providers up to \<open>k\<close>, in
  list order, and has left the network as those requests leave it: no provider after \<open>k\<close>
  is queried. This holds for every list of instances, every network and all three
  revisions; \<open>getHlsUrlFromInvidious\<close> is the loop on \<open>INVIDIOUS_INSTANCES\<close>.
\<close>

theorem tryInstances_first_success:
  assumes "k < length instances"
    and "yieldAt rv resolve fetch instances videoId w k = Inr (Some url)"
    and "\<forall>j<k. \<not> usable (yieldAt rv resolve fetch instances videoId w j)"
  shows "fst (tryInstances rv resolve fetch instances videoId w) = Some url
       \<and> requests (fst (snd (tryInstances rv resolve fetch instances videoId w)))
           = map (\<lambda>instance. apiUrlOf instance videoId) (take (Suc k) instances)
       \<and> snd (snd (tryInstances rv resolve fetch instances videoId w))
           = worldAfter fetch (take (Suc k) instances) videoId w"
  using assms
proof (induction instances arbitrary: k w)
  case Nil
  then show ?case by simp
next
  case (Cons inst rest)
  let ?w' = "snd (fetch w (apiUrlOf inst videoId))"
  show ?case
  proof (cases k)
    case 0
    with Cons.prems(2)
    have "tryBlock rv resolve inst (fst (fetch w (apiUrlOf inst videoId))) = Inr (Some url)"
      by (simp add: yieldAt_0)
    then show ?thesis
      using 0 by (simp add: tryInstances_success del: tryInstances.simps)
  next
    case (Suc k')
    from Cons.prems(3) Suc
    have first: "\<not> usable (tryBlock rv resolve inst (fst (fetch w (apiUrlOf inst videoId))))"
      using yieldAt_0 [of rv resolve fetch inst rest videoId w] by auto
    have len: "k' < length rest" using Cons.prems(1) Suc by simp
    have at: "yieldAt rv resolve fetch rest videoId ?w' k' = Inr (Some url)"
      using Cons.prems(2) Suc by (simp add: yieldAt_Suc)
    have before: "\<forall>j<k'. \<not> usable (yieldAt rv resolve fetch rest videoId ?w' j)"
    proof (intro allI impI)
      fix j assume "j < k'"
      then have "Suc j < k" using Suc by simp
      with Cons.prems(3)
      have "\<not> usable (yieldAt rv resolve fetch (inst # rest) videoId w (Suc j))"
        by blast
      then show "\<not> usable (yieldAt rv resolve fetch rest videoId ?w' j)"
        by (simp add: yieldAt_Suc)
    qed
    note IH = Cons.IH [OF len at before]
    from tryInstances_next [of rv resolve inst fetch w videoId rest] first IH show ?thesis
      using Suc by (simp del: tryInstances.simps)
  qed
qed

theorem tryInstances_first_success_witness:
  "fst (tryInstances Part_000 url_resolve example_fetch example_instances ''abc'' 0)
     = Some (JStr ''https://cdn.example/live.m3u8'')
   \<and> requests (fst (snd (tryInstances Part_000 url_resolve example_fetch example_instances ''abc'' 0)))
     = [''https://one.example/api/v1/videos/abc'', ''https://two.example/api/v1/videos/abc'',
        ''https://three.example/api/v1/videos/abc'']
   \<and> snd (snd (tryInstances Part_000 url_resolve example_fetch example_instances ''abc'' 0)) = 3"
proof -
  have len: "2 < length example_instances" by (simp add: example_instances_def)
  have at: "yieldAt Part_000 url_resolve example_fetch example_instances ''abc'' 0 2
            = Inr (Some (JStr ''https://cdn.example/live.m3u8''))"
    by code_simp
  have "list_all (\<lambda>j. \<not> usable (yieldAt Part_000 url_resolve example_fetch example_instances ''abc'' 0 j))
          [0..<2]"
    by code_simp
  then have before:
    "\<forall>j<2. \<not> usable (yieldAt Part_000 url_resolve example_fetch example_instances ''abc'' 0 j)"
    by (simp only: all_less_upt)
  have reqs: "map (\<lambda>instance. apiUrlOf instance ''abc'') (take (Suc 2) example_instances)
     = [''https://one.example/api/v1/videos/abc'', ''https://two.example/api/v1/videos/abc'',
        ''https://three.example/api/v1/videos/abc'']"
    by code_simp
  have world: "worldAfter example_fetch (take (Suc 2) example_instances) ''abc'' 0 = 3"
    by code_simp
  from tryInstances_first_success [OF len at before] show ?thesis
    by (simp only: reqs world)
qed




section \<open>The extraction of the stream URL\<close>

lemma getProp_truthy_obj:
  "getProp f key = Inr (Some v) \<Longrightarrow> truthy (Some f)"
  by (cases f) auto

lemma isHlsFormat_True: "isHlsFormat f = Inr True \<Longrightarrow> matchesHls f \<and> truthy (Some f)"
  by (cases f)
     (auto simp: isHlsFormat_def matchesHls_def HLS_FORMAT_NAME_def
           split: sum.splits option.splits json.splits if_splits)

lemma isHlsFormat_False: "isHlsFormat f = Inr False \<Longrightarrow> \<not> matchesHls f"
  by (cases f)
     (auto simp: isHlsFormat_def matchesHls_def HLS_FORMAT_NAME_def toLowerCase_def
           split: sum.splits option.splits json.splits if_splits)

lemma findFormat_Some:
  "findFormat fs = Inr (Some f) \<Longrightarrow> f \<in> set fs \<and> isHlsFormat f = Inr True"
  by (induction fs) (auto split: sum.splits bool.splits if_splits)

lemma findFormat_None:
  "findFormat fs = Inr None \<Longrightarrow> \<forall>f \<in> set fs. isHlsFormat f = Inr False"
  by (induction fs) (auto split: sum.splits bool.splits if_splits)

lemma hlsFormatOf_array:
  "hlsFormatOf videoInfo = Inr hlsFormat
   \<Longrightarrow> \<exists>fs. formatsOf videoInfo = Inr (Some (JArr fs)) \<and> findFormat fs = Inr hlsFormat"
  by (auto simp: hlsFormatOf_def split: sum.splits option.splits json.splits)

text \<open>
  Claim C7, amended. In \<open>src/server.js\<close> and in the revision with \<open>replaceDomain\<close>: when
  \<open>formats.find\<close> completes on a parsed response, the descriptor it selects is an element
  of the format list whose container tag equals \<open>hls\<close> or whose quality label, in lower
  case, contains \<open>hls\<close>, and the stream URL is that descriptor's \<open>url\<close>; when no element
  of the list is such a descriptor, the stream URL is the response's top-level \<open>hlsUrl\<close>.
  The oldest revision selects the descriptor in the same way but has \<open>null\<close> in place of
  the fallback: the counterexample is a response with \<open>hlsUrl\<close> and no stream descriptor,
  from which it gets no URL.
\<close>

theorem hlsUrlOf_selection:
  assumes "rv \<noteq> Part_000_older"
    and "hlsFormatOf videoInfo = Inr hlsFormat"
  shows "\<exists>fs. formatsOf videoInfo = Inr (Some (JArr fs))
           \<and> (case hlsFormat of
                Some f \<Rightarrow>
                  f \<in> set fs \<and> matchesHls f \<and> hlsUrlOf rv videoInfo = getProp f ''url''
              | None \<Rightarrow>
                  (\<forall>f \<in> set fs. \<not> matchesHls f)
                  \<and> hlsUrlOf rv videoInfo = getProp videoInfo ''hlsUrl'')"
proof -
  from assms(2) obtain fs where fs: "formatsOf videoInfo = Inr (Some (JArr fs))"
    and found: "findFormat fs = Inr hlsFormat"
    using hlsFormatOf_array by blast
  show ?thesis
  proof (cases hlsFormat)
    case None
    with found have "\<forall>f \<in> set fs. \<not> matchesHls f"
      using findFormat_None isHlsFormat_False by blast
    moreover have "hlsUrlOf rv videoInfo = getProp videoInfo ''hlsUrl''"
      using assms None by (simp add: hlsUrlOf_def)
    ultimately show ?thesis using fs None by auto
  next
    case (Some f)
    with found have mem: "f \<in> set fs" and hls: "isHlsFormat f = Inr True"
      using findFormat_Some by blast+
    from hls have "matchesHls f" and "truthy (Some f)"
      using isHlsFormat_True by blast+
    moreover from this have "hlsUrlOf rv videoInfo = getProp f ''url''"
      using assms Some by (simp add: hlsUrlOf_def)
    ultimately show ?thesis using fs Some mem by auto
  qed
qed

theorem hlsUrlOf_selection_witness:
  "hlsUrlOf Part_000 example_info = Inr (Some (JStr ''https://cdn.example/live.m3u8''))
   \<and> hlsUrlOf Part_000 fallback_info = Inr (Some (JStr ''https://cdn.example/master.m3u8''))"
proof -
  have sel: "hlsFormatOf example_info
             = Inr (Some (JObj [(''qualityLabel'', JStr ''HLS 720p''),
                                (''url'', JStr ''https://cdn.example/live.m3u8'')]))"
    by code_simp
  have none: "hlsFormatOf fallback_info = Inr None"
    by code_simp
  have "Part_000 \<noteq> Part_000_older" by simp
  from hlsUrlOf_selection [OF this sel]
  have "hlsUrlOf Part_000 example_info = Inr (Some (JStr ''https://cdn.example/live.m3u8''))"
    by auto
  moreover from hlsUrlOf_selection [OF \<open>Part_000 \<noteq> Part_000_older\<close> none]
  have "hlsUrlOf Part_000 fallback_info = Inr (Some (JStr ''https://cdn.example/master.m3u8''))"
    by (auto simp: fallback_info_def)
  ultimately show ?thesis by blast
qed

theorem hlsUrlOf_selection_counterexample:
  "hlsFormatOf fallback_info = Inr None
   \<and> getProp fallback_info ''hlsUrl'' = Inr (Some (JStr ''https://cdn.example/master.m3u8''))
   \<and> hlsUrlOf Part_000_older fallback_info = Inr (Some JNull)
   \<and> tryBlock Part_000_older url_resolve ''https://invidious.f5.si''
        (Responded 200 (BodyJson fallback_info)) = Inr None"
  by code_simp

lemma hlsUrlOf_older_no_fallback:
  "hlsFormatOf videoInfo = Inr None \<Longrightarrow> hlsUrlOf Part_000_older videoInfo = Inr (Some JNull)"
  by (simp add: hlsUrlOf_def)

text \<open>
  Claim C9. When \<open>formatStreams\<close> is present and truthy, \<open>adaptiveFormats\<close> is never read:
  the format list is the value of \<open>formatStreams\<close>, and a response that differs only in
  \<open>adaptiveFormats\<close> gives the same stream URL and the same outcome of the \<open>try\<close> block, in
  all three revisions. In the witness \<open>formatStreams\<close> is an empty array and
  \<open>adaptiveFormats\<close> holds a stream descriptor, and no URL is found.
\<close>

theorem formatStreams_shadows_adaptiveFormats:
  assumes "getProp videoInfo ''formatStreams'' = Inr formatStreams"
    and "truthy formatStreams"
    and "\<forall>key. key \<noteq> ''adaptiveFormats'' \<longrightarrow> getProp videoInfo' key = getProp videoInfo key"
  shows "formatsOf videoInfo = Inr formatStreams
       \<and> hlsUrlOf rv videoInfo' = hlsUrlOf rv videoInfo
       \<and> tryBlock rv resolve inst (Responded status (BodyJson videoInfo'))
         = tryBlock rv resolve inst (Responded status (BodyJson videoInfo))"
proof -
  have fs: "formatsOf videoInfo = Inr formatStreams"
    using assms(1,2) by (simp add: formatsOf_def)
  have "getProp videoInfo' ''formatStreams'' = Inr formatStreams"
    using assms(1,3) by simp
  then have fs': "formatsOf videoInfo' = Inr formatStreams"
    using assms(2) by (simp add: formatsOf_def)
  have direct: "getProp videoInfo' ''hlsUrl'' = getProp videoInfo ''hlsUrl''"
    using assms(3) by simp
  have "hlsFormatOf videoInfo' = hlsFormatOf videoInfo"
    by (simp add: hlsFormatOf_def fs fs')
  then have url: "hlsUrlOf rv videoInfo' = hlsUrlOf rv videoInfo"
    unfolding hlsUrlOf_def direct by simp
  then show ?thesis using fs by (simp add: tryBlock_def)
qed

theorem formatStreams_shadows_adaptiveFormats_witness:
  "formatsOf shadowed_info = Inr (Some (JArr []))
   \<and> tryBlock Part_000 url_resolve ''https://one.example'' (Responded 200 (BodyJson shadowed_info))
     = Inr None"
proof -
  have fs: "getProp shadowed_info ''formatStreams'' = Inr (Some (JArr []))"
    by (simp add: shadowed_info_def)
  have t: "truthy (Some (JArr []))" by simp
  have same: "\<forall>key. key \<noteq> ''adaptiveFormats''
      \<longrightarrow> getProp (JObj [(''formatStreams'', JArr [])]) key = getProp shadowed_info key"
    by (simp add: shadowed_info_def)
  have "tryBlock Part_000 url_resolve ''https://one.example''
          (Responded 200 (BodyJson (JObj [(''formatStreams'', JArr [])]))) = Inr None"
    by code_simp
  with formatStreams_shadows_adaptiveFormats [OF fs t same, of Part_000 url_resolve
      "''https://one.example''" 200]
  show ?thesis by simp
qed

lemma tryInstances_Some:
  assumes "fst (tryInstances rv resolve fetch instances videoId w) = Some url"
  shows "\<exists>k<length instances. yieldAt rv resolve fetch instances videoId w k = Inr (Some url)"
  using assms
proof (induction instances arbitrary: w)
  case Nil
  then show ?case by simp
next
  case (Cons inst rest)
  let ?first = "tryBlock rv resolve inst (fst (fetch w (apiUrlOf inst videoId)))"
  let ?w' = "snd (fetch w (apiUrlOf inst videoId))"
  show ?case
  proof (cases "usable ?first")
    case True
    then obtain found where found: "?first = Inr (Some found)"
      by (auto simp: usable_iff)
    with Cons.prems have "found = url"
      by (simp add: tryInstances_success del: tryInstances.simps)
    with found have "yieldAt rv resolve fetch (inst # rest) videoId w 0 = Inr (Some url)"
      by (simp add: yieldAt_0)
    then show ?thesis by auto
  next
    case False
    from tryInstances_next [of rv resolve inst fetch w videoId rest] False Cons.prems
    have "fst (tryInstances rv resolve fetch rest videoId ?w') = Some url"
      by simp
    from Cons.IH [OF this] obtain k where "k < length rest"
      and "yieldAt rv resolve fetch rest videoId ?w' k = Inr (Some url)"
      by blast
    then have "Suc k < length (inst # rest)"
      and "yieldAt rv resolve fetch (inst # rest) videoId w (Suc k) = Inr (Some url)"
      by (simp_all add: yieldAt_Suc)
    then show ?thesis by blast
  qed
qed

lemma tryBlock_Some:
  assumes "tryBlock rv resolve inst fetched = Inr (Some url)"
  shows "\<exists>status videoInfo hlsUrl.
           fetched = Responded status (BodyJson videoInfo)
         \<and> hlsUrlOf rv videoInfo = Inr (Some hlsUrl)
         \<and> (rv = Part_000 \<longrightarrow>
              (\<exists>s. hlsUrl = JStr s
                 \<and> (\<not> startsWith s ''http'' \<longrightarrow>
                      (\<exists>resolved. resolve inst s = Some resolved \<and> url = JStr resolved))))
         \<and> (rv \<noteq> Part_000 \<longrightarrow> url = hlsUrl)"
  using assms
  by (auto simp: tryBlock_def
           split: fetch_result.splits body.splits sum.splits option.splits json.splits if_splits)

lemma tryBlock_relative:
  assumes "hlsUrlOf Part_000 videoInfo = Inr (Some (JStr s))" and "s \<noteq> []"
    and "\<not> startsWith s ''http''" and "200 \<le> status" and "status < 300"
  shows "tryBlock Part_000 resolve inst (Responded status (BodyJson videoInfo))
         = (case resolve inst s of
              Some resolved \<Rightarrow> Inr (Some (JStr resolved))
            | None \<Rightarrow> Inl UrlError)"
  using assms by (simp add: tryBlock_def)

text \<open>
  Claim C6, amended. Every URL the resolver returns comes from the stream URL of one
  provider's response. In the revision with \<open>replaceDomain\<close> that stream URL is a string,
  and when it does not begin with \<open>http\<close> the URL returned is
  \<open>url.resolve(instance, hlsUrl)\<close>, the stream URL resolved against the base URL of the
  endpoint that produced it; such a stream URL is never dropped, unless \<open>url.resolve\<close>
  throws and the endpoint is skipped. \<open>src/server.js\<close> and the oldest revision have no such
  step and return the stream URL as the response holds it, so their result may be a
  relative URL: the counterexample is \<open>src/server.js\<close> on the stream URL
  \<open>live/index.m3u8\<close>.
\<close>

theorem resolver_url_resolution:
  "(fst (tryInstances rv resolve fetch instances videoId w) = Some url \<longrightarrow>
      (\<exists>k<length instances. \<exists>status videoInfo hlsUrl.
           fetchedAt fetch instances videoId w k = Responded status (BodyJson videoInfo)
         \<and> hlsUrlOf rv videoInfo = Inr (Some hlsUrl)
         \<and> (rv = Part_000 \<longrightarrow>
              (\<exists>s. hlsUrl = JStr s
                 \<and> (\<not> startsWith s ''http'' \<longrightarrow>
                      (\<exists>resolved. resolve (instances ! k) s = Some resolved
                                   \<and> url = JStr resolved))))
         \<and> (rv \<noteq> Part_000 \<longrightarrow> url = hlsUrl)))
   \<and> (hlsUrlOf Part_000 info = Inr (Some (JStr relative)) \<and> relative \<noteq> []
        \<and> \<not> startsWith relative ''http'' \<and> 200 \<le> code \<and> code < 300 \<longrightarrow>
      tryBlock Part_000 resolve inst (Responded code (BodyJson info))
        = (case resolve inst relative of
             Some resolved \<Rightarrow> Inr (Some (JStr resolved))
           | None \<Rightarrow> Inl UrlError))"
proof (intro conjI impI)
  assume "fst (tryInstances rv resolve fetch instances videoId w) = Some url"
  from tryInstances_Some [OF this] obtain k where k: "k < length instances"
    and yield: "tryBlock rv resolve (instances ! k) (fetchedAt fetch instances videoId w k)
                = Inr (Some url)"
    by (auto simp: yieldAt_def)
  from tryBlock_Some [OF yield] k
  show "\<exists>k<length instances. \<exists>status videoInfo hlsUrl.
           fetchedAt fetch instances videoId w k = Responded status (BodyJson videoInfo)
         \<and> hlsUrlOf rv videoInfo = Inr (Some hlsUrl)
         \<and> (rv = Part_000 \<longrightarrow>
              (\<exists>s. hlsUrl = JStr s
                 \<and> (\<not> startsWith s ''http'' \<longrightarrow>
                      (\<exists>resolved. resolve (instances ! k) s = Some resolved
                                   \<and> url = JStr resolved))))
         \<and> (rv \<noteq> Part_000 \<longrightarrow> url = hlsUrl)"
    by blast
next
  assume "hlsUrlOf Part_000 info = Inr (Some (JStr relative)) \<and> relative \<noteq> []
          \<and> \<not> startsWith relative ''http'' \<and> 200 \<le> code \<and> code < 300"
  then show "tryBlock Part_000 resolve inst (Responded code (BodyJson info))
        = (case resolve inst relative of
             Some resolved \<Rightarrow> Inr (Some (JStr resolved))
           | None \<Rightarrow> Inl UrlError)"
    by (simp add: tryBlock_relative)
qed

theorem resolver_url_resolution_witness:
  "fst (getHlsUrlFromInvidious Part_000 url_resolve (relative_fetch ''live/index.m3u8'') ''abc'' ())
     = Some (JStr ''https://invidious.f5.si/live/index.m3u8'')
   \<and> (\<exists>k<length INVIDIOUS_INSTANCES. \<exists>status videoInfo s.
         fetchedAt (relative_fetch ''live/index.m3u8'') INVIDIOUS_INSTANCES ''abc'' () k
           = Responded status (BodyJson videoInfo)
       \<and> hlsUrlOf Part_000 videoInfo = Inr (Some (JStr s))
       \<and> (startsWith s ''http''
           \<or> url_resolve (INVIDIOUS_INSTANCES ! k) s = Some ''https://invidious.f5.si/live/index.m3u8''))
   \<and> tryBlock Part_000 url_resolve ''https://invidious.f5.si''
        (Responded 200 (BodyJson (JObj [(''hlsUrl'', JStr ''live/index.m3u8'')])))
     = Inr (Some (JStr ''https://invidious.f5.si/live/index.m3u8''))"
proof -
  have run: "fst (tryInstances Part_000 url_resolve (relative_fetch ''live/index.m3u8'')
                    INVIDIOUS_INSTANCES ''abc'' ())
             = Some (JStr ''https://invidious.f5.si/live/index.m3u8'')"
    by code_simp
  have found: "hlsUrlOf Part_000 (JObj [(''hlsUrl'', JStr ''live/index.m3u8'')])
               = Inr (Some (JStr ''live/index.m3u8''))"
    by code_simp
  have relative: "''live/index.m3u8'' \<noteq> [] \<and> \<not> startsWith ''live/index.m3u8'' ''http''"
    by code_simp
  have resolved: "url_resolve ''https://invidious.f5.si'' ''live/index.m3u8''
                  = Some ''https://invidious.f5.si/live/index.m3u8''"
    by code_simp
  have ok: "(200::nat) \<le> 200 \<and> (200::nat) < 300" by simp
  note claim = resolver_url_resolution [of Part_000 url_resolve "relative_fetch ''live/index.m3u8''"
      INVIDIOUS_INSTANCES "''abc''" "()" "JStr ''https://invidious.f5.si/live/index.m3u8''"
      "JObj [(''hlsUrl'', JStr ''live/index.m3u8'')]" "''live/index.m3u8''" 200
      "''https://invidious.f5.si''"]
  from claim run
  have origin: "\<exists>k<length INVIDIOUS_INSTANCES. \<exists>status videoInfo s.
         fetchedAt (relative_fetch ''live/index.m3u8'') INVIDIOUS_INSTANCES ''abc'' () k
           = Responded status (BodyJson videoInfo)
       \<and> hlsUrlOf Part_000 videoInfo = Inr (Some (JStr s))
       \<and> (startsWith s ''http''
           \<or> url_resolve (INVIDIOUS_INSTANCES ! k) s = Some ''https://invidious.f5.si/live/index.m3u8'')"
    by fastforce
  from claim found relative resolved ok
  have direct: "tryBlock Part_000 url_resolve ''https://invidious.f5.si''
        (Responded 200 (BodyJson (JObj [(''hlsUrl'', JStr ''live/index.m3u8'')])))
     = Inr (Some (JStr ''https://invidious.f5.si/live/index.m3u8''))"
    by simp
  from run origin direct show ?thesis
    by (simp only: getHlsUrlFromInvidious_def)
qed

theorem resolver_url_resolution_counterexample:
  "fst (getHlsUrlFromInvidious Server_js url_resolve (relative_fetch ''live/index.m3u8'') ''abc'' ())
     = Some (JStr ''live/index.m3u8'')
   \<and> url_resolve ''https://invidious.f5.si'' ''live/index.m3u8''
     = Some ''https://invidious.f5.si/live/index.m3u8''"
  by code_simp

text \<open>
  The test of the revision with \<open>replaceDomain\<close> reads the first four letters only: a
  relative URL that begins with \<open>http\<close> is returned as it is, although the comment above
  the test says that a relative path is joined to the instance's base URL.
\<close>

lemma getHlsUrlFromInvidious_http_prefix:
  "fst (getHlsUrlFromInvidious Part_000 url_resolve (relative_fetch ''http_live/index.m3u8'') ''abc'' ())
     = Some (JStr ''http_live/index.m3u8'')"
  by code_simp

section \<open>The address rewriter on parsed URLs\<close>











end
